theory Spec2Isabelle
  imports Main "HOL-Library.Stream"
begin

section \<open>Python values and exceptions\<close>

text \<open>
  The program is a single Python module, \<^verbatim>\<open>pyllama.py\<close>, that talks to a console, to an
  HTTP server, to a chat library, to the file system and to an external tool. Strings are
  lists of characters; a character stands for a code point below 256.

  Exceptions are values. \<open>ext_error\<close> are the exceptions that the collaborators raise:
  \<open>EOFError\<close> (the console is at its end), \<open>KeyboardInterrupt\<close> (which does not derive from
  \<^verbatim>\<open>Exception\<close>) and \<open>Failed m\<close>, any other exception derived from \<^verbatim>\<open>Exception\<close>
  whose \<^verbatim>\<open>str()\<close> is \<open>m\<close>. The remaining constructors of \<open>error\<close> are the exceptions that
  Python's own operations raise in this program.
\<close>

datatype ext_error = EOFError | KeyboardInterrupt | Failed string

datatype error =
    ValueError | TypeError | OverflowError | ZeroDivisionError
  | AttributeError | KeyError | IndexError
  | External ext_error

fun is_Exception :: "ext_error \<Rightarrow> bool" where
  "is_Exception KeyboardInterrupt = False"
| "is_Exception EOFError = True"
| "is_Exception (Failed m) = True"

fun str_error :: "ext_error \<Rightarrow> string" where
  "str_error EOFError = ''EOF when reading a line''"
| "str_error KeyboardInterrupt = ''''"
| "str_error (Failed m) = m"

text \<open>
  A float is an IEEE double: \<open>Finite s m e\<close> is \<open>(-1)\<^sup>s * m * 2\<^sup>e\<close> with \<open>m < 2\<^sup>5\<^sup>3\<close>,
  \<open>-1074 \<le> e \<le> 971\<close> and \<open>2\<^sup>5\<^sup>2 \<le> m\<close> unless \<open>e = -1074\<close>.
\<close>

datatype pyfloat = Finite bool nat int | Infinity bool | NaN

text \<open>What \<^verbatim>\<open>response.json()\<close> can return; a dict keeps its items in insertion order.\<close>

datatype pyval =
    PNone
  | PBool bool
  | PInt int
  | PFloat pyfloat
  | PStr string
  | PList "pyval list"
  | PDict "(string \<times> pyval) list"

subsection \<open>The builtin \<^verbatim>\<open>int(str)\<close>\<close>

definition is_digit :: "char \<Rightarrow> bool" where
  "is_digit c = (48 \<le> (of_char c :: nat) \<and> (of_char c :: nat) \<le> 57)"

definition digit_value :: "char \<Rightarrow> nat" where
  "digit_value c = of_char c - 48"

text \<open>The code points below 256 that \<^verbatim>\<open>int()\<close> and \<^verbatim>\<open>float()\<close> skip at both ends.\<close>

definition is_space :: "char \<Rightarrow> bool" where
  "is_space c = ((of_char c :: nat) \<in> {9, 10, 11, 12, 13, 32, 133, 160})"

definition strip :: "string \<Rightarrow> string" where
  "strip s = rev (dropWhile is_space (rev (dropWhile is_space s)))"

text \<open>
  Digits with single underscores between them: the scan of \<^verbatim>\<open>PyLong_FromString\<close>, which
  remembers the previous character.
\<close>

fun scan_digits :: "char \<Rightarrow> string \<Rightarrow> bool" where
  "scan_digits prev [] = (prev \<noteq> CHR ''_'')"
| "scan_digits prev (c # cs) =
     (if c = CHR ''_'' then prev \<noteq> CHR ''_'' \<and> scan_digits c cs
      else is_digit c \<and> scan_digits c cs)"

definition digit_groups :: "string \<Rightarrow> bool" where
  "digit_groups s = (s \<noteq> [] \<and> hd s \<noteq> CHR ''_'' \<and> scan_digits (CHR 0x00) s)"

definition digits_of :: "string \<Rightarrow> string" where
  "digits_of s = filter is_digit s"

definition decimal_value :: "string \<Rightarrow> nat" where
  "decimal_value ds = foldl (\<lambda>acc c. 10 * acc + digit_value c) 0 ds"

definition int_max_str_digits :: nat where
  "int_max_str_digits = 4300"

definition split_sign :: "string \<Rightarrow> bool \<times> string" where
  "split_sign s =
     (case s of
        [] \<Rightarrow> (False, [])
      | c # cs \<Rightarrow>
          if c = CHR ''-'' then (True, cs)
          else if c = CHR ''+'' then (False, cs)
          else (False, s))"

definition py_int_str :: "string \<Rightarrow> error + int" where
  "py_int_str s =
     (case split_sign (strip s) of
        (neg, body) \<Rightarrow>
          if \<not> digit_groups body then Inl ValueError
          else if int_max_str_digits < length (digits_of body) then Inl ValueError
          else Inr (if neg then - int (decimal_value (digits_of body))
                    else int (decimal_value (digits_of body))))"

subsection \<open>\<^verbatim>\<open>len\<close> and subscription\<close>

fun py_len :: "pyval \<Rightarrow> error + nat" where
  "py_len (PList xs) = Inr (length xs)"
| "py_len (PStr s) = Inr (length s)"
| "py_len (PDict kvs) = Inr (length kvs)"
| "py_len v = Inl TypeError"

text \<open>\<^verbatim>\<open>v[i]\<close> for an integer \<open>i\<close>; a negative index counts from the end.\<close>

definition seq_index :: "'a list \<Rightarrow> int \<Rightarrow> error + 'a" where
  "seq_index xs i =
     (if 0 \<le> i \<and> i < int (length xs) then Inr (xs ! nat i)
      else if i < 0 \<and> - int (length xs) \<le> i then Inr (xs ! nat (int (length xs) + i))
      else Inl IndexError)"

fun py_getitem_int :: "pyval \<Rightarrow> int \<Rightarrow> error + pyval" where
  "py_getitem_int (PList xs) i = seq_index xs i"
| "py_getitem_int (PStr s) i = map_sum id (\<lambda>c. PStr [c]) (seq_index s i)"
| "py_getitem_int (PDict kvs) i = Inl KeyError"
| "py_getitem_int v i = Inl TypeError"

subsection \<open>Floats\<close>

text \<open>
  Doubles are computed exactly, on fractions of natural numbers. \<open>times_pow b (n, d) t\<close>
  is the fraction \<open>n / d * b\<^sup>t\<close>; \<open>round_half_even\<close> is the integer nearest to a fraction,
  the even one of two that are equally near.
\<close>

definition times_pow :: "nat \<Rightarrow> nat \<times> nat \<Rightarrow> int \<Rightarrow> nat \<times> nat" where
  "times_pow b f t =
     (if 0 \<le> t then (fst f * b ^ nat t, snd f) else (fst f, snd f * b ^ nat (- t)))"

definition round_half_even :: "nat \<times> nat \<Rightarrow> nat" where
  "round_half_even f =
     (let q = fst f div snd f; r = fst f mod snd f
      in if snd f < 2 * r \<or> (2 * r = snd f \<and> odd q) then q + 1 else q)"

fun bit_length :: "nat \<Rightarrow> nat" where
  "bit_length n = (if n = 0 then 0 else Suc (bit_length (n div 2)))"

declare bit_length.simps [simp del]

text \<open>\<open>floor_log2 n d\<close> is the \<open>k\<close> with \<open>2\<^sup>k \<le> n / d < 2\<^sup>k\<^sup>+\<^sup>1\<close>, for \<open>n\<close> and \<open>d\<close> above zero.\<close>

definition floor_log2 :: "nat \<Rightarrow> nat \<Rightarrow> int" where
  "floor_log2 n d =
     (let k = int (bit_length n) - int (bit_length d);
          f = times_pow 2 (n, d) (- k)
      in if snd f \<le> fst f then k else k - 1)"

text \<open>
  The double nearest to \<open>(-1)\<^sup>s * n / d\<close>, ties to even: 53 bits, an exponent of at
  least \<open>-1074\<close> (below that the result is subnormal or zero), and infinity when the rounded
  value needs an exponent above 971.
\<close>

definition to_double :: "bool \<Rightarrow> nat \<Rightarrow> nat \<Rightarrow> pyfloat" where
  "to_double s n d =
     (if n = 0 then Finite s 0 (- 1074)
      else
        let e = max (floor_log2 n d - 52) (- 1074);
            m = round_half_even (times_pow 2 (n, d) (- e));
            e' = (if m = 2 ^ 53 then e + 1 else e);
            m' = (if m = 2 ^ 53 then 2 ^ 52 else m)
        in if 971 < e' then Infinity s else Finite s m' e')"

text \<open>
  \<^verbatim>\<open>a / b\<close> on integers is the correctly rounded quotient, and raises
  \<^verbatim>\<open>OverflowError\<close> when that is beyond the doubles. \<^verbatim>\<open>float(k)\<close> of an integer
  does the same.
\<close>

definition int_truediv :: "int \<Rightarrow> int \<Rightarrow> error + pyfloat" where
  "int_truediv a b =
     (if b = 0 then Inl ZeroDivisionError
      else
        (case to_double ((a < 0) \<noteq> (b < 0)) (nat \<bar>a\<bar>) (nat \<bar>b\<bar>) of
           Infinity s \<Rightarrow> Inl OverflowError
         | x \<Rightarrow> Inr x))"

definition float_of_int :: "int \<Rightarrow> error + pyfloat" where
  "float_of_int k =
     (case to_double (k < 0) (nat \<bar>k\<bar>) 1 of
        Infinity s \<Rightarrow> Inl OverflowError
      | x \<Rightarrow> Inr x)"

text \<open>\<^verbatim>\<open>x / y\<close> on floats: IEEE division, but a zero divisor raises.\<close>

fun float_truediv :: "pyfloat \<Rightarrow> pyfloat \<Rightarrow> error + pyfloat" where
  "float_truediv x (Finite t m2 e2) =
     (if m2 = 0 then Inl ZeroDivisionError
      else
        (case x of
           NaN \<Rightarrow> Inr NaN
         | Infinity s \<Rightarrow> Inr (Infinity (s \<noteq> t))
         | Finite s m e \<Rightarrow>
             Inr (to_double (s \<noteq> t) (m * 2 ^ nat (e - e2)) (m2 * 2 ^ nat (e2 - e)))))"
| "float_truediv x NaN = Inr NaN"
| "float_truediv x (Infinity t) =
     (case x of
        Finite s m e \<Rightarrow> Inr (Finite (s \<noteq> t) 0 (- 1074))
      | _ \<Rightarrow> Inr NaN)"

text \<open>
  \<^verbatim>\<open>round(x, ndigits)\<close> for a float and \<open>ndigits \<ge> 0\<close>: the value is rounded half to
  even to that many decimals, exactly, and the decimal is read back as a double.
\<close>

fun py_round :: "pyfloat \<Rightarrow> nat \<Rightarrow> pyfloat" where
  "py_round (Finite s m e) nd =
     to_double s (round_half_even (times_pow 2 (m * 10 ^ nd, 1) e)) (10 ^ nd)"
| "py_round x nd = x"

subsection \<open>Numbers as text\<close>

definition digit_char :: "nat \<Rightarrow> char" where
  "digit_char n = ''0123456789'' ! n"

fun show_nat :: "nat \<Rightarrow> string" where
  "show_nat n =
     (if n < 10 then [digit_char n] else show_nat (n div 10) @ [digit_char (n mod 10)])"

declare show_nat.simps [simp del]

definition show_int :: "int \<Rightarrow> string" where
  "show_int i = (if i < 0 then CHR ''-'' # show_nat (nat (- i)) else show_nat (nat i))"

definition pad_left :: "nat \<Rightarrow> string \<Rightarrow> string" where
  "pad_left k s = replicate (k - length s) CHR ''0'' @ s"

definition sign_text :: "bool \<Rightarrow> string" where
  "sign_text s = (if s then ''-'' else [])"

text \<open>
  The format \<^verbatim>\<open>.2f\<close> (and any \<^verbatim>\<open>.<prec>f\<close>): the exact value, rounded half to
  even to \<open>prec\<close> decimals.
\<close>

fun format_f :: "nat \<Rightarrow> pyfloat \<Rightarrow> string" where
  "format_f prec (Finite s m e) =
     (let t = round_half_even (times_pow 2 (m * 10 ^ prec, 1) e)
      in sign_text s @ show_nat (t div 10 ^ prec) @
         (if prec = 0 then [] else ''.'' @ pad_left prec (show_nat (t mod 10 ^ prec))))"
| "format_f prec (Infinity s) = sign_text s @ ''inf''"
| "format_f prec NaN = ''nan''"

text \<open>
  \<^verbatim>\<open>repr\<close> of a float is the shortest decimal that reads back as the same double.
  \<open>floor_log10 n d\<close> is the \<open>p\<close> with \<open>10\<^sup>p \<le> n / d < 10\<^sup>p\<^sup>+\<^sup>1\<close>; \<open>candidate f p k\<close> is the
  coefficient of the decimal of \<open>k\<close> digits nearest to the fraction \<open>f\<close>.
\<close>

function lead10 :: "nat \<Rightarrow> nat \<Rightarrow> nat" where
  "lead10 n d = (if n = 0 \<or> d \<le> n then 0 else Suc (lead10 (10 * n) d))"
  by pat_completeness auto
termination
  by (relation "measure (\<lambda>(n, d). d - n)") auto

declare lead10.simps [simp del]

definition floor_log10 :: "nat \<Rightarrow> nat \<Rightarrow> int" where
  "floor_log10 n d =
     (if d \<le> n then int (length (show_nat (n div d))) - 1 else - int (lead10 n d))"

definition candidate :: "nat \<times> nat \<Rightarrow> int \<Rightarrow> nat \<Rightarrow> nat" where
  "candidate f p k = round_half_even (times_pow 10 f (int k - 1 - p))"

definition reads_back :: "nat \<Rightarrow> int \<Rightarrow> int \<Rightarrow> nat \<Rightarrow> bool" where
  "reads_back m e p k =
     (let c = times_pow 10 (candidate (times_pow 2 (m, 1) e) p k, 1) (p + 1 - int k)
      in to_double False (fst c) (snd c) = Finite False m e)"

definition strip_zeros :: "string \<Rightarrow> string" where
  "strip_zeros ds = rev (dropWhile (\<lambda>c. c = CHR ''0'') (rev ds))"

text \<open>The digits \<open>ds\<close> and the position \<open>pt\<close> of the point: the value is \<open>0.ds * 10\<^sup>p\<^sup>t\<close>.\<close>

definition shortest_digits :: "nat \<Rightarrow> int \<Rightarrow> string \<times> int" where
  "shortest_digits m e =
     (let f = times_pow 2 (m, 1) e;
          p = floor_log10 (fst f) (snd f);
          k = (case find (reads_back m e p) [1, 2, 3, 4, 5, 6, 7, 8, 9, 10, 11, 12, 13, 14, 15, 16] of Some k \<Rightarrow> k | None \<Rightarrow> 17);
          ds = show_nat (candidate f p k)
      in (strip_zeros ds, p + 1 - int k + int (length ds)))"

text \<open>Plain notation for \<open>-4 < pt \<le> 16\<close>, an exponent of at least two digits otherwise.\<close>

definition float_layout :: "string \<Rightarrow> int \<Rightarrow> string" where
  "float_layout ds pt =
     (if - 4 < pt \<and> pt \<le> 16 then
        (if pt \<le> 0 then ''0.'' @ replicate (nat (- pt)) CHR ''0'' @ ds
         else if pt < int (length ds) then take (nat pt) ds @ ''.'' @ drop (nat pt) ds
         else ds @ replicate (nat pt - length ds) CHR ''0'' @ ''.0'')
      else
        [hd ds] @ (if 1 < length ds then ''.'' @ tl ds else []) @ ''e'' @
        (if pt - 1 < 0 then ''-'' else ''+'') @ pad_left 2 (show_nat (nat \<bar>pt - 1\<bar>)))"

fun float_repr :: "pyfloat \<Rightarrow> string" where
  "float_repr (Finite s m e) =
     sign_text s @
     (if m = 0 then ''0.0''
      else (case shortest_digits m e of (ds, pt) \<Rightarrow> float_layout ds pt))"
| "float_repr (Infinity s) = sign_text s @ ''inf''"
| "float_repr NaN = ''nan''"

subsection \<open>The builtin \<^verbatim>\<open>float(str)\<close>\<close>

text \<open>
  \<^verbatim>\<open>str.lower\<close> on code points below 256: the letters A to Z, and the capital
  letters of Latin-1.
\<close>

definition capitals :: string where
  "capitals = ''ABCDEFGHIJKLMNOPQRSTUVWXYZ'' @
     [CHR 0xC0, CHR 0xC1, CHR 0xC2, CHR 0xC3, CHR 0xC4, CHR 0xC5, CHR 0xC6, CHR 0xC7,
      CHR 0xC8, CHR 0xC9, CHR 0xCA, CHR 0xCB, CHR 0xCC, CHR 0xCD, CHR 0xCE, CHR 0xCF,
      CHR 0xD0, CHR 0xD1, CHR 0xD2, CHR 0xD3, CHR 0xD4, CHR 0xD5, CHR 0xD6,
      CHR 0xD8, CHR 0xD9, CHR 0xDA, CHR 0xDB, CHR 0xDC, CHR 0xDD, CHR 0xDE]"

definition smalls :: string where
  "smalls = ''abcdefghijklmnopqrstuvwxyz'' @
     [CHR 0xE0, CHR 0xE1, CHR 0xE2, CHR 0xE3, CHR 0xE4, CHR 0xE5, CHR 0xE6, CHR 0xE7,
      CHR 0xE8, CHR 0xE9, CHR 0xEA, CHR 0xEB, CHR 0xEC, CHR 0xED, CHR 0xEE, CHR 0xEF,
      CHR 0xF0, CHR 0xF1, CHR 0xF2, CHR 0xF3, CHR 0xF4, CHR 0xF5, CHR 0xF6,
      CHR 0xF8, CHR 0xF9, CHR 0xFA, CHR 0xFB, CHR 0xFC, CHR 0xFD, CHR 0xFE]"

definition lower_char :: "char \<Rightarrow> char" where
  "lower_char c = (case map_of (zip capitals smalls) c of Some l \<Rightarrow> l | None \<Rightarrow> c)"

definition py_lower :: "string \<Rightarrow> string" where
  "py_lower s = map lower_char s"

text \<open>An underscore is allowed between two digits only.\<close>

fun underscores_ok :: "char \<Rightarrow> string \<Rightarrow> bool" where
  "underscores_ok prev [] = (prev \<noteq> CHR ''_'')"
| "underscores_ok prev (c # cs) =
     (if c = CHR ''_'' then is_digit prev \<and> underscores_ok c cs
      else if prev = CHR ''_'' then is_digit c \<and> underscores_ok c cs
      else underscores_ok c cs)"

definition exponent_part :: "string \<Rightarrow> int option" where
  "exponent_part r =
     (case r of
        [] \<Rightarrow> Some 0
      | c # cs \<Rightarrow>
          if c = CHR ''e'' \<or> c = CHR ''E'' then
            (case split_sign cs of
               (eneg, ed) \<Rightarrow>
                 if ed \<noteq> [] \<and> list_all is_digit ed
                 then Some (if eneg then - int (decimal_value ed) else int (decimal_value ed))
                 else None)
          else None)"

text \<open>
  Digits, a point, digits, an exponent; at least one digit before the exponent. The value
  is the double nearest to the decimal, infinity when that is beyond the doubles.
\<close>

definition decimal_literal :: "bool \<Rightarrow> string \<Rightarrow> error + pyfloat" where
  "decimal_literal neg body =
     (let ip = takeWhile is_digit body;
          r1 = dropWhile is_digit body;
          pointed = (r1 \<noteq> [] \<and> hd r1 = CHR ''.'');
          fp = (if pointed then takeWhile is_digit (tl r1) else []);
          r2 = (if pointed then dropWhile is_digit (tl r1) else r1)
      in if ip @ fp = [] then Inl ValueError
         else
           (case exponent_part r2 of
              None \<Rightarrow> Inl ValueError
            | Some ex \<Rightarrow>
                Inr (case times_pow 10 (decimal_value (ip @ fp), 1) (ex - int (length fp)) of
                       (n, d) \<Rightarrow> to_double neg n d)))"

definition py_float_str :: "string \<Rightarrow> error + pyfloat" where
  "py_float_str s =
     (if \<not> underscores_ok (CHR 0x00) (strip s) then Inl ValueError
      else
        (case split_sign (filter (\<lambda>c. c \<noteq> CHR ''_'') (strip s)) of
           (neg, body) \<Rightarrow>
             if py_lower body = ''inf'' \<or> py_lower body = ''infinity'' then Inr (Infinity neg)
             else if py_lower body = ''nan'' then Inr NaN
             else decimal_literal neg body))"

subsection \<open>Operations on values\<close>

text \<open>Sequencing of operations that can raise.\<close>

fun and_then :: "error + 'a \<Rightarrow> ('a \<Rightarrow> error + 'b) \<Rightarrow> error + 'b" where
  "and_then (Inl e) f = Inl e"
| "and_then (Inr x) f = f x"

text \<open>\<^verbatim>\<open>v.get(key, default)\<close>: only a dict has the method.\<close>

fun dict_get :: "pyval \<Rightarrow> string \<Rightarrow> pyval \<Rightarrow> error + pyval" where
  "dict_get (PDict kvs) key dflt =
     Inr (case map_of kvs key of None \<Rightarrow> dflt | Some x \<Rightarrow> x)"
| "dict_get v key dflt = Inl AttributeError"

text \<open>\<^verbatim>\<open>v[key]\<close> for a string \<open>key\<close>.\<close>

fun py_getitem_str :: "pyval \<Rightarrow> string \<Rightarrow> error + pyval" where
  "py_getitem_str (PDict kvs) key =
     (case map_of kvs key of None \<Rightarrow> Inl KeyError | Some x \<Rightarrow> Inr x)"
| "py_getitem_str v key = Inl TypeError"

text \<open>\<^verbatim>\<open>v / k\<close> for an integer \<open>k\<close>; a bool is an integer.\<close>

fun py_truediv_int :: "pyval \<Rightarrow> int \<Rightarrow> error + pyfloat" where
  "py_truediv_int (PInt a) k = int_truediv a k"
| "py_truediv_int (PBool b) k = int_truediv (if b then 1 else 0) k"
| "py_truediv_int (PFloat x) k = and_then (float_of_int k) (float_truediv x)"
| "py_truediv_int v k = Inl TypeError"

text \<open>\<^verbatim>\<open>int(v)\<close>: a float is cut towards zero.\<close>

fun py_int :: "pyval \<Rightarrow> error + int" where
  "py_int (PStr s) = py_int_str s"
| "py_int (PInt n) = Inr n"
| "py_int (PBool b) = Inr (if b then 1 else 0)"
| "py_int (PFloat (Finite s m e)) =
     (case times_pow 2 (m, 1) e of
        (n, d) \<Rightarrow> Inr (if s then - int (n div d) else int (n div d)))"
| "py_int (PFloat (Infinity s)) = Inl OverflowError"
| "py_int (PFloat NaN) = Inl ValueError"
| "py_int v = Inl TypeError"

text \<open>Truth of a value, as \<^verbatim>\<open>not v\<close> and \<^verbatim>\<open>if v\<close> see it.\<close>

fun py_truthy :: "pyval \<Rightarrow> bool" where
  "py_truthy PNone = False"
| "py_truthy (PBool b) = b"
| "py_truthy (PInt n) = (n \<noteq> 0)"
| "py_truthy (PFloat (Finite s m e)) = (m \<noteq> 0)"
| "py_truthy (PFloat x) = True"
| "py_truthy (PStr s) = (s \<noteq> [])"
| "py_truthy (PList xs) = (xs \<noteq> [])"
| "py_truthy (PDict kvs) = (kvs \<noteq> [])"

text \<open>What a \<^verbatim>\<open>for\<close> loop over a value visits.\<close>

fun py_iter :: "pyval \<Rightarrow> error + pyval list" where
  "py_iter (PList xs) = Inr xs"
| "py_iter (PDict kvs) = Inr (map (\<lambda>kv. PStr (fst kv)) kvs)"
| "py_iter (PStr s) = Inr (map (\<lambda>c. PStr [c]) s)"
| "py_iter v = Inl TypeError"

subsection \<open>\<^verbatim>\<open>str\<close> and \<^verbatim>\<open>repr\<close>\<close>

definition hex2 :: "nat \<Rightarrow> string" where
  "hex2 n = [''0123456789abcdef'' ! (n div 16), ''0123456789abcdef'' ! (n mod 16)]"

definition printable :: "char \<Rightarrow> bool" where
  "printable c =
     (32 \<le> (of_char c :: nat) \<and> \<not> (127 \<le> (of_char c :: nat) \<and> (of_char c :: nat) \<le> 160)
      \<and> (of_char c :: nat) \<noteq> 173)"

definition escape_char :: "char \<Rightarrow> char \<Rightarrow> string" where
  "escape_char q c =
     (if c = q \<or> c = CHR 0x5C then [CHR 0x5C, c]
      else if c = CHR 0x09 then [CHR 0x5C, CHR ''t'']
      else if c = CHR 0x0A then [CHR 0x5C, CHR ''n'']
      else if c = CHR 0x0D then [CHR 0x5C, CHR ''r'']
      else if \<not> printable c then [CHR 0x5C, CHR ''x''] @ hex2 (of_char c)
      else [c])"

definition repr_str :: "string \<Rightarrow> string" where
  "repr_str s =
     (let q = (if CHR 0x27 \<in> set s \<and> CHR 0x22 \<notin> set s then CHR 0x22 else CHR 0x27)
      in [q] @ concat (map (escape_char q) s) @ [q])"

definition join :: "string \<Rightarrow> string list \<Rightarrow> string" where
  "join sep xs = (case xs of [] \<Rightarrow> [] | x # ys \<Rightarrow> x @ concat (map (\<lambda>y. sep @ y) ys))"

fun py_repr :: "pyval \<Rightarrow> string" where
  "py_repr PNone = ''None''"
| "py_repr (PBool b) = (if b then ''True'' else ''False'')"
| "py_repr (PInt n) = show_int n"
| "py_repr (PFloat x) = float_repr x"
| "py_repr (PStr s) = repr_str s"
| "py_repr (PList xs) = ''['' @ join '', '' (map py_repr xs) @ '']''"
| "py_repr (PDict kvs) =
     ''{'' @ join '', '' (map (\<lambda>kv. repr_str (fst kv) @ '': '' @ py_repr (snd kv)) kvs) @ ''}''"

fun py_str :: "pyval \<Rightarrow> string" where
  "py_str (PStr s) = s"
| "py_str v = py_repr v"

section \<open>The world outside the program\<close>

text \<open>
  The console, the HTTP server, the chat library, the clock, the external tool and the
  file system. Each collaborator is a stream of the outcomes of the successive calls to
  it, and the calls the program makes are recorded. A file is what is on disk, what has
  been written and not yet flushed, and whether a handle on it is open; opening and
  writing a file are taken to succeed.
\<close>

record pyfile =
  disk :: string
  pending :: string
  is_open :: bool

record response =
  status_code :: int
  json :: "ext_error + pyval"

record world =
  stdin :: "(ext_error + string) stream"
  stdout :: string
  files :: "string \<Rightarrow> pyfile option"
  http :: "(ext_error + response) stream"
  http_calls :: "string list"
  chats :: "(string list \<times> ext_error option) stream"
  chat_calls :: "(pyval \<times> string) list"
  clock :: "string stream"
  procs :: "ext_error option stream"
  proc_calls :: "string list list"

text \<open>A program step: it changes the world and returns a value or raises.\<close>

type_synonym 'a prog = "world \<Rightarrow> (error + 'a) \<times> world"

definition ret :: "'a \<Rightarrow> 'a prog" where
  "ret x w = (Inr x, w)"

definition lift :: "error + 'a \<Rightarrow> 'a prog" where
  "lift r w = (r, w)"

definition seq :: "'a prog \<Rightarrow> ('a \<Rightarrow> 'b prog) \<Rightarrow> 'b prog" where
  "seq p f w = (case p w of (Inl e, w1) \<Rightarrow> (Inl e, w1) | (Inr x, w1) \<Rightarrow> f x w1)"

definition effect :: "(world \<Rightarrow> world) \<Rightarrow> unit prog" where
  "effect g w = (Inr (), g w)"

text \<open>\<^verbatim>\<open>print(s, end="")\<close> and \<^verbatim>\<open>print(s)\<close>.\<close>

definition py_write_out :: "string \<Rightarrow> world \<Rightarrow> world" where
  "py_write_out s w = w\<lparr>stdout := stdout w @ s\<rparr>"

definition py_print :: "string \<Rightarrow> world \<Rightarrow> world" where
  "py_print s w = w\<lparr>stdout := stdout w @ s @ ''\<newline>''\<rparr>"

text \<open>\<^verbatim>\<open>input(prompt)\<close> writes the prompt, then reads a line or raises.\<close>

definition py_input :: "string \<Rightarrow> world \<Rightarrow> (ext_error + string) \<times> world" where
  "py_input prompt w =
     (shd (stdin w), w\<lparr>stdout := stdout w @ prompt, stdin := stl (stdin w)\<rparr>)"

definition read_line :: "string \<Rightarrow> string prog" where
  "read_line prompt w = (case py_input prompt w of (r, w1) \<Rightarrow> (map_sum External id r, w1))"

text \<open>
  Files, named by their path: \<^verbatim>\<open>open(path, "w")\<close> creates or empties the file,
  \<^verbatim>\<open>write\<close> appends to what is pending, \<^verbatim>\<open>flush\<close> moves that to the disk, and
  leaving the \<^verbatim>\<open>with\<close> block flushes and closes.
\<close>

definition on_file :: "string \<Rightarrow> (pyfile \<Rightarrow> pyfile) \<Rightarrow> world \<Rightarrow> world" where
  "on_file path g w = w\<lparr>files := (files w)(path := map_option g (files w path))\<rparr>"

definition py_open :: "string \<Rightarrow> world \<Rightarrow> world" where
  "py_open path w =
     w\<lparr>files := (files w)(path := Some \<lparr>disk = [], pending = [], is_open = True\<rparr>)\<rparr>"

definition py_write :: "string \<Rightarrow> string \<Rightarrow> world \<Rightarrow> world" where
  "py_write path s = on_file path (\<lambda>f. f\<lparr>pending := pending f @ s\<rparr>)"

definition py_flush :: "string \<Rightarrow> world \<Rightarrow> world" where
  "py_flush path = on_file path (\<lambda>f. f\<lparr>disk := disk f @ pending f, pending := []\<rparr>)"

definition py_close :: "string \<Rightarrow> world \<Rightarrow> world" where
  "py_close path =
     on_file path (\<lambda>f. f\<lparr>disk := disk f @ pending f, pending := [], is_open := False\<rparr>)"

section \<open>Model selection\<close>

text \<open>
  \<^verbatim>\<open>select_model\<close>, lines 60 to 69. The loop has no exit but the \<^verbatim>\<open>return\<close> and an
  exception that \<^verbatim>\<open>except ValueError\<close> does not catch, so the result is an option and
  \<open>None\<close> is a loop that never ends.
\<close>

text \<open>
  The body of the \<^verbatim>\<open>try\<close> after the line has been read: \<open>Inr (Some m)\<close> is the
  \<^verbatim>\<open>return\<close>, \<open>Inr None\<close> the \<^verbatim>\<open>else\<close> branch. The chained comparison evaluates
  \<^verbatim>\<open>len(models)\<close> only when \<^verbatim>\<open>1 <= selection\<close> holds.
\<close>

definition selection_of :: "pyval \<Rightarrow> string \<Rightarrow> error + pyval option" where
  "selection_of models line =
     (case py_int_str line of
        Inl e \<Rightarrow> Inl e
      | Inr selection \<Rightarrow>
          if 1 \<le> selection then
            (case py_len models of
               Inl e \<Rightarrow> Inl e
             | Inr n \<Rightarrow>
                 if selection \<le> int n
                 then map_sum id Some (py_getitem_int models (selection - 1))
                 else Inr None)
          else Inr None)"

partial_function (option) select_model ::
  "pyval \<Rightarrow> world \<Rightarrow> ((error + pyval) \<times> world) option" where
  "select_model models w =
     (case py_input ''Select a model by number: '' w of
        (Inl e, w1) \<Rightarrow> Some (Inl (External e), w1)
      | (Inr line, w1) \<Rightarrow>
          (case selection_of models line of
             Inl e \<Rightarrow>
               if e = ValueError
               then select_model models (py_print ''Please enter a valid number.'' w1)
               else Some (Inl e, w1)
           | Inr None \<Rightarrow>
               select_model models
                 (py_print ''Invalid selection. Please choose a valid number.'' w1)
           | Inr (Some m) \<Rightarrow> Some (Inr m, w1)))"

section \<open>The catalog\<close>

definition OLLAMA_SERVER_URL :: string where
  "OLLAMA_SERVER_URL = ''http://localhost:11434''"

text \<open>
  \<^verbatim>\<open>get_installed_models\<close>, lines 12 to 19. \<^verbatim>\<open>requests.get\<close> returns a response or
  raises; nothing here catches what it raises, nor what \<^verbatim>\<open>response.json()\<close> or the
  \<^verbatim>\<open>.get\<close> on its result raise.
\<close>

definition requests_get :: "string \<Rightarrow> response prog" where
  "requests_get url w =
     (map_sum External id (shd (http w)),
      w\<lparr>http := stl (http w), http_calls := http_calls w @ [url]\<rparr>)"

definition get_installed_models :: "pyval prog" where
  "get_installed_models =
     seq (requests_get (OLLAMA_SERVER_URL @ ''/api/tags/'')) (\<lambda>response.
       if status_code response = 200 then
         seq (lift (map_sum External id (json response))) (\<lambda>body.
           lift (dict_get body ''models'' (PList [])))
       else
         seq (effect (py_print (''Failed to retrieve models: '' @
                show_int (status_code response)))) (\<lambda>u.
           ret (PList [])))"

text \<open>\<^verbatim>\<open>bytes_to_gb\<close>, lines 22 and 23.\<close>

definition bytes_to_gb :: "pyval \<Rightarrow> error + pyfloat" where
  "bytes_to_gb byte_size = py_truediv_int byte_size (1024 ^ 3)"

text \<open>
  \<^verbatim>\<open>format_model_details\<close>, lines 26 to 45. The \<^verbatim>\<open>try\<close> covers the conversion of
  \<^verbatim>\<open>parameter_size\<close> only, and catches \<^verbatim>\<open>ValueError\<close> and \<^verbatim>\<open>TypeError\<close> only. The result is
  the dict of the five columns, in the order of the source.
\<close>

definition param_size_display :: "pyval \<Rightarrow> error + pyval" where
  "param_size_display param_size =
     (case and_then (py_int param_size) (\<lambda>n. bytes_to_gb (PInt n)) of
        Inr param_size_gb \<Rightarrow> Inr (PStr (format_f 2 param_size_gb @ '' GB''))
      | Inl e \<Rightarrow> if e = ValueError \<or> e = TypeError then Inr param_size else Inl e)"

definition format_model_details :: "pyval \<Rightarrow> error + (string \<times> pyval) list" where
  "format_model_details model =
     and_then (dict_get model ''details'' (PDict [])) (\<lambda>details.
     and_then (dict_get details ''family'' (PStr [])) (\<lambda>family.
     and_then (dict_get details ''parameter_size'' (PStr [])) (\<lambda>param_size.
     and_then (dict_get details ''quantization_level'' (PStr [])) (\<lambda>quant_level.
     and_then (dict_get model ''size'' (PStr [])) (\<lambda>raw_size.
     and_then (py_truediv_int raw_size 1024) (\<lambda>kb.
     and_then (py_truediv_int (PFloat kb) 1024) (\<lambda>mb.
     and_then (py_truediv_int (PFloat mb) 1024) (\<lambda>gb.
     and_then (param_size_display param_size) (\<lambda>shown.
     and_then (dict_get model ''name'' (PStr [])) (\<lambda>name.
       Inr [(''Name'', name),
            (''Family'', family),
            (''Parameter Size'', shown),
            (''Quantization Level'', quant_level),
            (''Size'', PStr (float_repr (py_round gb 2) @ '' GB''))]))))))))))"

text \<open>
  \<^verbatim>\<open>print_model_menu\<close>, lines 48 to 57. The table is drawn by \<^verbatim>\<open>tabulate\<close>, a
  library: it is a parameter, from the rows to the text.
\<close>

fun table_rows :: "int \<Rightarrow> pyval list \<Rightarrow> error + pyval list list" where
  "table_rows index [] = Inr []"
| "table_rows index (model # models) =
     and_then (format_model_details model) (\<lambda>formatted_details.
     and_then (table_rows (index + 1) models) (\<lambda>rows.
       Inr ((PInt index # map snd formatted_details) # rows)))"

definition print_model_menu :: "(pyval list list \<Rightarrow> string) \<Rightarrow> pyval \<Rightarrow> unit prog" where
  "print_model_menu tabulate models =
     seq (lift (and_then (py_iter models) (table_rows 1))) (\<lambda>table_data.
     seq (effect (py_print ''\<newline>Installed Models:'')) (\<lambda>u.
       effect (py_print (tabulate table_data))))"

section \<open>Deriving a model\<close>

text \<open>
  \<^verbatim>\<open>get_user_parameters\<close>, lines 72 to 85: five lines are read and converted in turn,
  and nothing catches what \<^verbatim>\<open>input\<close>, \<^verbatim>\<open>float\<close> or \<^verbatim>\<open>int\<close> raise.
\<close>

definition input_float :: "string \<Rightarrow> pyval prog" where
  "input_float prompt =
     seq (read_line prompt) (\<lambda>line. lift (map_sum id PFloat (py_float_str line)))"

definition input_int :: "string \<Rightarrow> pyval prog" where
  "input_int prompt =
     seq (read_line prompt) (\<lambda>line. lift (map_sum id PInt (py_int_str line)))"

definition get_user_parameters :: "(string \<times> pyval) list prog" where
  "get_user_parameters =
     seq (input_float ''Enter temperature (e.g., 0.7): '') (\<lambda>temperature.
     seq (input_int ''Enter num_ctx (e.g., 2048): '') (\<lambda>num_ctx.
     seq (input_int ''Enter top_k (e.g., 50): '') (\<lambda>top_k.
     seq (input_float ''Enter top_p (e.g., 0.9): '') (\<lambda>top_p.
     seq (input_float ''Enter min_p (e.g., 0.01): '') (\<lambda>min_p.
       ret [(''temperature'', temperature),
            (''num_ctx'', num_ctx),
            (''top_k'', top_k),
            (''top_p'', top_p),
            (''min_p'', min_p)])))))"

text \<open>
  \<^verbatim>\<open>write_to_model_file\<close>, lines 88 to 92. The parameters are the items of the dict, in
  its order.
\<close>

definition parameter_line :: "string \<times> pyval \<Rightarrow> string" where
  "parameter_line kv = ''PARAMETER '' @ fst kv @ '' '' @ py_str (snd kv) @ ''\<newline>''"

definition write_to_model_file ::
  "string \<Rightarrow> pyval \<Rightarrow> (string \<times> pyval) list \<Rightarrow> world \<Rightarrow> world" where
  "write_to_model_file model_name original_model_name parameters w =
     py_close model_name
       (fold (\<lambda>kv. py_write model_name (parameter_line kv)) parameters
          (py_write model_name (''FROM '' @ py_str original_model_name @ ''\<newline>'')
             (py_open model_name w)))"

text \<open>
  \<^verbatim>\<open>create_ollama_model_with_config\<close>, lines 95 to 100: the tool is run, and what it
  raises is printed if it derives from \<^verbatim>\<open>Exception\<close>.
\<close>

definition subprocess_run :: "string list \<Rightarrow> world \<Rightarrow> ext_error option \<times> world" where
  "subprocess_run cmd w =
     (shd (procs w), w\<lparr>procs := stl (procs w), proc_calls := proc_calls w @ [cmd]\<rparr>)"

definition create_ollama_model_with_config :: "string \<Rightarrow> string \<Rightarrow> unit prog" where
  "create_ollama_model_with_config model_name config_file w =
     (case subprocess_run [''ollama'', ''create'', model_name, ''-f'', config_file] w of
        (None, w1) \<Rightarrow> (Inr (), py_print (''Model '' @ model_name @ '' created successfully.'') w1)
      | (Some e, w1) \<Rightarrow>
          if is_Exception e
          then (Inr (), py_print (''Error creating model: '' @ str_error e) w1)
          else (Inl (External e), w1))"

section \<open>The chat session\<close>

text \<open>
  \<^verbatim>\<open>run_model\<close>, lines 131 to 167. \<^verbatim>\<open>ollama.chat\<close> yields fragments of text and then
  ends or raises. Each fragment goes to the console and to the log, which is flushed.
\<close>

definition ollama_chat ::
  "pyval \<Rightarrow> string \<Rightarrow> world \<Rightarrow> (string list \<times> ext_error option) \<times> world" where
  "ollama_chat model prompt w =
     (shd (chats w), w\<lparr>chats := stl (chats w), chat_calls := chat_calls w @ [(model, prompt)]\<rparr>)"

definition emit :: "string \<Rightarrow> string \<Rightarrow> world \<Rightarrow> world" where
  "emit path content w = py_flush path (py_write path content (py_write_out content w))"

definition separator :: string where
  "separator = replicate 80 CHR ''-''"

text \<open>What one turn of the loop writes before the chat is called, and after it has ended.\<close>

definition log_prompt :: "string \<Rightarrow> string \<Rightarrow> world \<Rightarrow> world" where
  "log_prompt path user_prompt w =
     py_write path ''Assistant: ''
       (py_flush path (py_write path (''User: '' @ user_prompt @ ''\<newline>'') w))"

definition close_turn :: "string \<Rightarrow> world \<Rightarrow> world" where
  "close_turn path w =
     py_print (''\<newline>'' @ separator)
       (py_flush path (py_write path (''\<newline>'' @ separator @ ''\<newline>'') w))"

text \<open>
  The \<^verbatim>\<open>while\<close> loop, lines 143 to 162: the condition looks at the prompt of the turn
  before. \<open>None\<close> is a session that never ends.
\<close>

partial_function (option) chat_loop ::
  "pyval \<Rightarrow> string \<Rightarrow> string \<Rightarrow> world \<Rightarrow> ((ext_error + unit) \<times> world) option" where
  "chat_loop model_name path user_prompt w =
     (if py_lower user_prompt \<noteq> ''exit'' then
        (case py_input ''\<newline>\<newline>\<newline>Enter a prompt > '' w of
           (Inl e, w1) \<Rightarrow> Some (Inl e, w1)
         | (Inr next_prompt, w1) \<Rightarrow>
             (case ollama_chat model_name next_prompt (log_prompt path next_prompt w1) of
                ((fragments, raised), w2) \<Rightarrow>
                  (case raised of
                     Some e \<Rightarrow> Some (Inl e, fold (emit path) fragments w2)
                   | None \<Rightarrow>
                       chat_loop model_name path next_prompt
                         (close_turn path (fold (emit path) fragments w2)))))
      else Some (Inr (), w))"

text \<open>
  Before the \<^verbatim>\<open>try\<close>: the banner, the time, the path of the log, and the \<^verbatim>\<open>open\<close>.
  After the loop: the \<^verbatim>\<open>with\<close> closes the log, \<^verbatim>\<open>except Exception\<close> prints, and
  \<^verbatim>\<open>finally\<close> announces the path, also when the exception goes on.
\<close>

definition log_file_path :: "string \<Rightarrow> string" where
  "log_file_path current_time = ''logs/Session_'' @ current_time @ ''.log''"

definition start_session :: "pyval \<Rightarrow> world \<Rightarrow> string \<times> world" where
  "start_session model_name w =
     (log_file_path (shd (clock w)),
      py_open (log_file_path (shd (clock w)))
        ((py_print (''Running model: '' @ py_str model_name) w)\<lparr>clock := stl (clock w)\<rparr>))"

definition announce :: "string \<Rightarrow> world \<Rightarrow> world" where
  "announce path = py_print (''Session log saved to: '' @ path)"

definition end_session ::
  "string \<Rightarrow> (ext_error + unit) \<times> world \<Rightarrow> (error + unit) \<times> world" where
  "end_session path r =
     (case r of
        (Inr u, w) \<Rightarrow> (Inr (), announce path (py_close path w))
      | (Inl e, w) \<Rightarrow>
          if is_Exception e
          then (Inr (), announce path
                  (py_print (''An error occurred: '' @ str_error e) (py_close path w)))
          else (Inl (External e), announce path (py_close path w)))"

definition run_model :: "pyval \<Rightarrow> world \<Rightarrow> ((error + unit) \<times> world) option" where
  "run_model model_name w =
     (case start_session model_name w of
        (path, w1) \<Rightarrow> map_option (end_session path) (chat_loop model_name path [] w1))"

section \<open>The menus\<close>

subsection \<open>Equality of values\<close>

text \<open>
  \<^verbatim>\<open>==\<close>: numbers are compared by value across bool, int and float, NaN equals nothing,
  lists are compared in order and dicts key by key.
\<close>

fun as_fraction :: "pyval \<Rightarrow> (bool \<times> nat \<times> nat) option" where
  "as_fraction (PBool b) = Some (False, if b then 1 else 0, 1)"
| "as_fraction (PInt n) = Some (n < 0, nat \<bar>n\<bar>, 1)"
| "as_fraction (PFloat (Finite s m e)) = Some (s, times_pow 2 (m, 1) e)"
| "as_fraction v = None"

definition same_number :: "bool \<times> nat \<times> nat \<Rightarrow> bool \<times> nat \<times> nat \<Rightarrow> bool" where
  "same_number x y =
     (fst (snd x) * snd (snd y) = fst (snd y) * snd (snd x)
      \<and> (fst x = fst y \<or> fst (snd x) = 0))"

fun py_eq :: "pyval \<Rightarrow> pyval \<Rightarrow> bool" and py_eq_list :: "pyval list \<Rightarrow> pyval list \<Rightarrow> bool"
  and py_eq_items :: "(string \<times> pyval) list \<Rightarrow> (string \<times> pyval) list \<Rightarrow> bool"
  and py_eq_item :: "pyval \<Rightarrow> string \<Rightarrow> (string \<times> pyval) list \<Rightarrow> bool" where
  "py_eq (PList xs) (PList ys) = py_eq_list xs ys"
| "py_eq (PDict a) (PDict b) = (length a = length b \<and> py_eq_items a b)"
| "py_eq (PStr s) (PStr t) = (s = t)"
| "py_eq PNone PNone = True"
| "py_eq (PFloat (Infinity s)) (PFloat (Infinity t)) = (s = t)"
| "py_eq a b =
     (case (as_fraction a, as_fraction b) of
        (Some x, Some y) \<Rightarrow> same_number x y
      | _ \<Rightarrow> False)"
| "py_eq_list [] ys = (ys = [])"
| "py_eq_list (x # xs) [] = False"
| "py_eq_list (x # xs) (y # ys) = (py_eq x y \<and> py_eq_list xs ys)"
| "py_eq_items [] b = True"
| "py_eq_items (kv # a) b = (py_eq_item (snd kv) (fst kv) b \<and> py_eq_items a b)"
| "py_eq_item v k [] = False"
| "py_eq_item v k (kv # b) = (if fst kv = k then py_eq v (snd kv) else py_eq_item v k b)"

subsection \<open>Details of a model\<close>

text \<open>\<^verbatim>\<open>show_model_details\<close>, lines 170 to 179: the catalog is fetched again.\<close>

definition print_field :: "string \<Rightarrow> error + pyval \<Rightarrow> unit prog" where
  "print_field label v = seq (lift v) (\<lambda>x. effect (py_print (label @ '' '' @ py_str x)))"

definition details_field :: "pyval \<Rightarrow> string \<Rightarrow> error + pyval" where
  "details_field model key =
     and_then (dict_get model ''details'' (PDict [])) (\<lambda>details. dict_get details key (PStr []))"

definition print_details :: "pyval \<Rightarrow> unit prog" where
  "print_details model =
     seq (print_field ''Model Name:'' (py_getitem_str model ''name'')) (\<lambda>u.
     seq (print_field ''Family:'' (details_field model ''family'')) (\<lambda>u.
     seq (print_field ''Parameter Size:'' (details_field model ''parameter_size'')) (\<lambda>u.
     seq (print_field ''Quantization Level:''
            (details_field model ''quantization_level'')) (\<lambda>u.
       print_field ''Size:''
         (map_sum id PFloat (and_then (py_getitem_str model ''size'') bytes_to_gb))))))"

fun show_matching :: "pyval \<Rightarrow> pyval list \<Rightarrow> unit prog" where
  "show_matching model_name [] = ret ()"
| "show_matching model_name (model # models) =
     seq (lift (py_getitem_str model ''name'')) (\<lambda>name.
     seq (if py_eq name model_name then print_details model else ret ()) (\<lambda>u.
       show_matching model_name models))"

definition show_model_details :: "pyval \<Rightarrow> unit prog" where
  "show_model_details model_name =
     seq (effect (py_print (''Details for model: '' @ py_str model_name))) (\<lambda>u.
     seq get_installed_models (\<lambda>models.
     seq (lift (py_iter models)) (show_matching model_name)))"

subsection \<open>The secondary menu\<close>

text \<open>
  The branch of choice 3, lines 118 to 122. No \<^verbatim>\<open>try\<close> stands around it, here or in
  \<^verbatim>\<open>main\<close>.
\<close>

definition copy_model :: "pyval \<Rightarrow> unit prog" where
  "copy_model selected_model =
     seq (read_line ''Enter the name for the new model: '') (\<lambda>new_model_name.
     seq get_user_parameters (\<lambda>parameters.
     seq (lift (py_getitem_str selected_model ''name'')) (\<lambda>name.
     seq (effect (write_to_model_file (new_model_name @ ''.modelfile'') name parameters)) (\<lambda>u.
       create_ollama_model_with_config new_model_name (new_model_name @ ''.modelfile'')))))"

definition menu_text :: "world \<Rightarrow> world" where
  "menu_text w =
     py_print ''5. Exit''
       (py_print ''4. Back to Main Menu''
          (py_print ''3. Copy Model''
             (py_print ''2. Show Model Details''
                (py_print ''1. Run Model''
                   (py_print ''\<newline>Secondary Menu:'' w)))))"

text \<open>
  \<^verbatim>\<open>secondary_menu\<close>, lines 103 to 128: \<^verbatim>\<open>break\<close> returns \<^verbatim>\<open>None\<close>, choice 5 returns
  \<open>-1\<close>.
\<close>

partial_function (option) secondary_menu ::
  "pyval \<Rightarrow> world \<Rightarrow> ((error + pyval) \<times> world) option" where
  "secondary_menu selected_model w =
     (case read_line ''Enter your choice (1/2/3/4): '' (menu_text w) of
        (Inl e, w1) \<Rightarrow> Some (Inl e, w1)
      | (Inr choice, w1) \<Rightarrow>
          if choice = ''1'' then
            (case py_getitem_str selected_model ''name'' of
               Inl e \<Rightarrow> Some (Inl e, w1)
             | Inr name \<Rightarrow>
                 (case run_model name w1 of
                    None \<Rightarrow> None
                  | Some (Inl e, w2) \<Rightarrow> Some (Inl e, w2)
                  | Some (Inr u, w2) \<Rightarrow> secondary_menu selected_model w2))
          else if choice = ''2'' then
            (case seq (lift (py_getitem_str selected_model ''name'')) show_model_details w1 of
               (Inl e, w2) \<Rightarrow> Some (Inl e, w2)
             | (Inr u, w2) \<Rightarrow> secondary_menu selected_model w2)
          else if choice = ''3'' then
            (case copy_model selected_model w1 of
               (Inl e, w2) \<Rightarrow> Some (Inl e, w2)
             | (Inr u, w2) \<Rightarrow> secondary_menu selected_model w2)
          else if choice = ''4'' then Some (Inr PNone, w1)
          else if choice = ''5'' then Some (Inr (PInt (- 1)), w1)
          else secondary_menu selected_model
                 (py_print ''Invalid option. Please try again.'' w1))"

subsection \<open>The main loop\<close>

text \<open>\<^verbatim>\<open>main\<close>, lines 183 to 193; \<open>check\<close> is the variable of the loop.\<close>

partial_function (option) main_loop ::
  "(pyval list list \<Rightarrow> string) \<Rightarrow> pyval \<Rightarrow> world \<Rightarrow> ((error + unit) \<times> world) option" where
  "main_loop tabulate check w =
     (if \<not> py_eq check (PInt (- 1)) then
        (case get_installed_models w of
           (Inl e, w1) \<Rightarrow> Some (Inl e, w1)
         | (Inr models, w1) \<Rightarrow>
             if \<not> py_truthy models then Some (Inr (), py_print ''No models found.'' w1)
             else
               (case print_model_menu tabulate models w1 of
                  (Inl e, w2) \<Rightarrow> Some (Inl e, w2)
                | (Inr u, w2) \<Rightarrow>
                    (case select_model models w2 of
                       None \<Rightarrow> None
                     | Some (Inl e, w3) \<Rightarrow> Some (Inl e, w3)
                     | Some (Inr selected_model, w3) \<Rightarrow>
                         (case secondary_menu selected_model w3 of
                            None \<Rightarrow> None
                          | Some (Inl e, w4) \<Rightarrow> Some (Inl e, w4)
                          | Some (Inr result, w4) \<Rightarrow> main_loop tabulate result w4))))
      else Some (Inr (), w))"

definition main :: "(pyval list list \<Rightarrow> string) \<Rightarrow> world \<Rightarrow> ((error + unit) \<times> world) option" where
  "main tabulate = main_loop tabulate (PInt 0)"

section \<open>Vocabulary of the properties\<close>

subsection \<open>Worlds to run the program in\<close>

text \<open>
  \<open>idle\<close> is a world in which the console is at its end, no file exists, the server
  cannot be reached, the chat yields nothing and the external tool succeeds. \<open>typed\<close> puts
  lines on the console, followed by its end.
\<close>

definition idle :: world where
  "idle =
     \<lparr>stdin = sconst (Inl EOFError), stdout = [], files = (\<lambda>p. None),
      http = sconst (Inl (Failed ''connection refused'')), http_calls = [],
      chats = sconst ([], None), chat_calls = [],
      clock = sconst ''20240101_120000'',
      procs = sconst None, proc_calls = []\<rparr>"

definition typed :: "string list \<Rightarrow> world \<Rightarrow> world" where
  "typed ls w = w\<lparr>stdin := map Inr ls @- sconst (Inl EOFError)\<rparr>"

subsection \<open>Selections\<close>

text \<open>
  A line is a valid selection \<open>n\<close> of a list when \<^verbatim>\<open>int\<close> reads it as \<open>n\<close> and
  \<open>1 \<le> n \<le> count\<close>; every other line is invalid. \<open>retry\<close> is what the program does
  with an invalid line: the prompt, the line read, the complaint printed.
\<close>

definition valid_selection :: "pyval list \<Rightarrow> string \<Rightarrow> int \<Rightarrow> bool" where
  "valid_selection xs line n =
     (py_int_str line = Inr n \<and> 1 \<le> n \<and> n \<le> int (length xs))"

definition invalid_line :: "pyval list \<Rightarrow> string \<Rightarrow> bool" where
  "invalid_line xs line =
     (case py_int_str line of Inl e \<Rightarrow> True | Inr n \<Rightarrow> n < 1 \<or> int (length xs) < n)"

definition complaint :: "string \<Rightarrow> string" where
  "complaint line =
     (case py_int_str line of
        Inl e \<Rightarrow> ''Please enter a valid number.''
      | Inr n \<Rightarrow> ''Invalid selection. Please choose a valid number.'')"

definition retry :: "string \<Rightarrow> world \<Rightarrow> world" where
  "retry line w =
     py_print (complaint line) (snd (py_input ''Select a model by number: '' w))"

fun retries :: "string list \<Rightarrow> world \<Rightarrow> world" where
  "retries [] w = w"
| "retries (l # ls) w = retries ls (retry l w)"



section \<open>Properties of model selection\<close>

lemma py_int_str_error: "py_int_str s = Inl e \<Longrightarrow> e = ValueError"
  by (auto simp: py_int_str_def split: prod.splits if_splits)



lemma select_model_accept:
  assumes "shd (stdin w) = Inr line" and "valid_selection xs line n"
  shows "select_model (PList xs) w =
    Some (Inr (xs ! nat (n - 1)), snd (py_input ''Select a model by number: '' w))"
  using assms
  by (subst select_model.simps)
     (simp add: py_input_def selection_of_def valid_selection_def seq_index_def)

lemma select_model_reject:
  assumes "shd (stdin w) = Inr line" and "invalid_line xs line"
  shows "select_model (PList xs) w = select_model (PList xs) (retry line w)"
proof (cases "py_int_str line")
  case (Inl e)
  then have "e = ValueError" by (rule py_int_str_error)
  with Inl assms(1) show ?thesis
    by (subst select_model.simps)
       (simp add: py_input_def selection_of_def retry_def complaint_def py_print_def)
next
  case (Inr n)
  with assms show ?thesis
    by (subst select_model.simps)
       (auto simp: py_input_def selection_of_def retry_def complaint_def py_print_def
          invalid_line_def)
qed

lemma stdin_retry: "stdin (retry l w) = stl (stdin w)"
  by (simp add: retry_def py_print_def py_input_def)

text \<open>
  C5. For every list of models \<open>xs\<close>: when the console delivers any number of invalid
  lines \<open>ls\<close> (not a number, or a number outside \<open>[1, count]\<close>) and then a line that is a
  valid selection \<open>n\<close>, \<^verbatim>\<open>select_model\<close> returns element \<open>n - 1\<close> of the list it was
  given. Each invalid line is answered by a complaint and a new prompt, with the same
  list; the number of retries is not bounded.
\<close>

theorem select_model_retries_until_valid:
  assumes "stake (length ls) (stdin w) = map Inr ls"
    and "list_all (invalid_line xs) ls"
    and "stdin w !! length ls = Inr line"
    and "valid_selection xs line n"
  shows "select_model (PList xs) w =
    Some (Inr (xs ! nat (n - 1)),
          snd (py_input ''Select a model by number: '' (retries ls w)))"
  using assms
proof (induction ls arbitrary: w)
  case Nil
  then show ?case by (simp add: select_model_accept)
next
  case (Cons l ls)
  from Cons.prems(1) have first: "shd (stdin w) = Inr l"
    and others: "stake (length ls) (stdin (retry l w)) = map Inr ls"
    by (simp_all add: stdin_retry)
  from Cons.prems(2) have bad: "invalid_line xs l"
    and rest: "list_all (invalid_line xs) ls"
    by simp_all
  from Cons.prems(3) have nxt: "stdin (retry l w) !! length ls = Inr line"
    by (simp add: stdin_retry)
  have "select_model (PList xs) w = select_model (PList xs) (retry l w)"
    using first bad by (rule select_model_reject)
  also have "\<dots> = Some (Inr (xs ! nat (n - 1)),
      snd (py_input ''Select a model by number: '' (retries ls (retry l w))))"
    using others rest nxt Cons.prems(4) by (rule Cons.IH)
  finally show ?case by simp
qed

theorem select_model_retries_until_valid_witness:
  "select_model (PList [PStr ''llama2'', PStr ''mistral''])
     (typed [''abc'', ''0'', ''3'', '' 2 ''] idle) =
   Some (Inr (PStr ''mistral''),
     (typed [] idle)\<lparr>stdout :=
        ''Select a model by number: Please enter a valid number.\<newline>'' @
        ''Select a model by number: Invalid selection. Please choose a valid number.\<newline>'' @
        ''Select a model by number: Invalid selection. Please choose a valid number.\<newline>'' @
        ''Select a model by number: ''\<rparr>)"
proof -
  let ?xs = "[PStr ''llama2'', PStr ''mistral'']"
  let ?ls = "[''abc'', ''0'', ''3'']"
  let ?w = "typed [''abc'', ''0'', ''3'', '' 2 ''] idle"
  have i1: "py_int_str ''abc'' = Inl ValueError" by code_simp
  have i2: "py_int_str ''0'' = Inr 0" by code_simp
  have i3: "py_int_str ''3'' = Inr 3" by code_simp
  have i4: "py_int_str '' 2 '' = Inr 2" by code_simp
  have a: "stake (length ?ls) (stdin ?w) = map Inr ?ls"
    by (simp add: typed_def idle_def)
  have b: "list_all (invalid_line ?xs) ?ls"
    by (simp add: invalid_line_def i1 i2 i3)
  have c: "stdin ?w !! length ?ls = Inr '' 2 ''"
    by (simp add: typed_def idle_def)
  have d: "valid_selection ?xs '' 2 '' 2"
    by (simp add: valid_selection_def i4)
  from select_model_retries_until_valid [OF a b c d]
  show ?thesis
    by (simp add: retry_def complaint_def i1 i2 i3 py_print_def py_input_def typed_def
        idle_def)
qed










end
